theory Spec2Isabelle
  imports Main "HOL-Library.Word"
begin

section \<open>The countdown timer of App.tsx\<close>

text \<open>
  The component \<open>CountdownTimer\<close> keeps five pieces of React state (\<open>time\<close>,
  \<open>isRunning\<close>, \<open>isCompleted\<close>, \<open>showAlert\<close>, \<open>inputValue\<close>) and changes them in
  six event handlers and in the callback of a one-second interval. Each handler is
  modelled as a function from the state before the event to the state after it.

  Numbers. Every number the component stores comes from \<open>parseInt\<close>, from a preset
  or from subtracting one, so it is an integer; the fields are modelled as \<open>int\<close>.
  JavaScript numbers are doubles. On the safe integers, those of magnitude at most
  \<open>2^53 - 1\<close>, doubles are exact and the model is the code: \<open>parseInt\<close> returns the
  integer its digits denote, \<open>x - 1\<close> is the predecessor, and \<open>toString\<close> is the
  decimal numeral. Beyond them the code rounds (\<open>1e17 - 1\<close> is \<open>1e17\<close>), overflows to
  \<open>Infinity\<close> and prints exponents, and the model does not follow it. Every statement
  below that depends on the value of a number therefore assumes it safe
  (\<open>safeInt\<close>, \<open>safeTime\<close>).

  Strings. A JavaScript string is a sequence of 16-bit code units and is modelled as
  a list of 16-bit words. \<open>str\<close> turns a literal of ASCII characters into such a
  list.
\<close>

subsection \<open>Strings\<close>

type_synonym codeUnit = "16 word"

type_synonym jsstring = "codeUnit list"

definition str :: "string \<Rightarrow> jsstring" where
  "str s = map of_char s"

definition colon :: codeUnit where
  "colon = of_char CHR '':''"

subsection \<open>Data\<close>

record TimeState =
  hours :: int
  minutes :: int
  seconds :: int

text \<open>
  The state of the component. \<open>beeps\<close> is not a field of the source: it counts the
  calls of \<open>beepRef.current.play()\<close>, the audible half of the notifier, so that
  "how often did it fire" can be stated.
\<close>

record TimerState =
  time :: TimeState
  isRunning :: bool
  isCompleted :: bool
  showAlert :: bool
  inputValue :: jsstring
  beeps :: nat

datatype TimerStatus = Idle | Running | Completed

text \<open>
  The status as the source derives it from the two flags: the interval is armed under
  \<open>isRunning && !isCompleted\<close> (line 54), and the display tests \<open>isCompleted\<close> first,
  then \<open>isRunning\<close> (lines 188-192).
\<close>

definition status :: "TimerState \<Rightarrow> TimerStatus" where
  "status s = (if isCompleted s then Completed else if isRunning s then Running else Idle)"

definition zeroTime :: TimeState where
  "zeroTime = \<lparr>hours = 0, minutes = 0, seconds = 0\<rparr>"

text \<open>The test \<open>hours === 0 && minutes === 0 && seconds === 0\<close> of lines 59 and 125.\<close>

definition isZero :: "TimeState \<Rightarrow> bool" where
  "isZero t = (hours t = 0 \<and> minutes t = 0 \<and> seconds t = 0)"

subsection \<open>Library functions of JavaScript\<close>

text \<open>\<open>String.prototype.split\<close> with a one-character separator.\<close>

fun split :: "codeUnit \<Rightarrow> jsstring \<Rightarrow> jsstring list" where
  "split sep [] = [[]]"
| "split sep (c # cs) =
     (let r = split sep cs in if c = sep then [] # r else (c # hd r) # tl r)"

text \<open>
  The code units that \<open>trim\<close> and \<open>parseInt\<close> strip: the white space of ECMAScript
  (TAB, VT, FF, SPACE, NBSP, the byte order mark \<open>U+FEFF\<close> and the other space
  separators \<open>U+1680\<close>, \<open>U+2000\<close> to \<open>U+200A\<close>, \<open>U+202F\<close>, \<open>U+205F\<close>,
  \<open>U+3000\<close>) and its line terminators (LF, CR, \<open>U+2028\<close>, \<open>U+2029\<close>).
\<close>

definition isWhiteSpace :: "codeUnit \<Rightarrow> bool" where
  "isWhiteSpace c =
     (c \<in> {0x09, 0x0B, 0x0C, 0x20, 0xA0, 0xFEFF, 0x1680, 0x202F, 0x205F, 0x3000,
            0x0A, 0x0D, 0x2028, 0x2029}
      \<or> (0x2000 \<le> c \<and> c \<le> 0x200A))"

definition trimStart :: "jsstring \<Rightarrow> jsstring" where
  "trimStart s = dropWhile isWhiteSpace s"

definition trim :: "jsstring \<Rightarrow> jsstring" where
  "trim s = rev (dropWhile isWhiteSpace (rev (dropWhile isWhiteSpace s)))"

text \<open>
  The value of a code unit as a digit: \<open>0\<close>-\<open>9\<close> (48 to 57) are 0 to 9, letters of
  either case (97 to 122, 65 to 90) are 10 to 35, anything else is no digit in any
  radix (36 here).
\<close>

definition digitVal :: "codeUnit \<Rightarrow> nat" where
  "digitVal c =
     (let n = unat c in
      if 48 \<le> n \<and> n \<le> 57 then n - 48
      else if 97 \<le> n \<and> n \<le> 122 then n - 87
      else if 65 \<le> n \<and> n \<le> 90 then n - 55
      else 36)"

definition radixDigit :: "nat \<Rightarrow> codeUnit \<Rightarrow> bool" where
  "radixDigit R c = (digitVal c < R)"

definition radixValue :: "nat \<Rightarrow> jsstring \<Rightarrow> nat" where
  "radixValue R Z = foldl (\<lambda>a c. a * R + digitVal c) 0 Z"

text \<open>
  \<open>parseInt(string)\<close> with no radix argument, after ECMAScript 19.2.5: skip leading
  white space, take an optional sign, switch to radix 16 after a prefix \<open>0x\<close> or \<open>0X\<close>,
  read the longest run of digits of the radix, ignore whatever follows. \<open>None\<close> is the
  result \<open>NaN\<close> (no digit was read). The result is the integer the digits denote,
  which is what JavaScript returns while that integer is safe; JavaScript rounds a
  longer run to a double.
\<close>

definition signOf :: "jsstring \<Rightarrow> int" where
  "signOf S = (if S \<noteq> [] \<and> hd S = of_char CHR ''-'' then - 1 else 1)"

definition stripSign :: "jsstring \<Rightarrow> jsstring" where
  "stripSign S =
     (if S \<noteq> [] \<and> (hd S = of_char CHR ''+'' \<or> hd S = of_char CHR ''-'') then tl S else S)"

definition hexPrefix :: "jsstring \<Rightarrow> bool" where
  "hexPrefix S = (take 2 S = str ''0x'' \<or> take 2 S = str ''0X'')"

definition parseInt :: "jsstring \<Rightarrow> int option" where
  "parseInt input =
     (let S = trimStart input;
          S1 = stripSign S;
          R = (if hexPrefix S1 then 16 else 10 :: nat);
          S2 = (if hexPrefix S1 then drop 2 S1 else S1);
          Z = takeWhile (radixDigit R) S2
      in if Z = [] then None else Some (signOf S * int (radixValue R Z)))"

text \<open>\<open>x || 0\<close> on the result of \<open>parseInt\<close>: \<open>NaN\<close> and zero are falsy and give 0.\<close>

definition orZero :: "int option \<Rightarrow> int" where
  "orZero r = (case r of None \<Rightarrow> 0 | Some v \<Rightarrow> if v = 0 then 0 else v)"

text \<open>
  \<open>Number.prototype.toString\<close> on a safe integer: its decimal digits, a minus sign
  first. From \<open>10^21\<close> on JavaScript prints an exponent instead.
\<close>

definition digitChar :: "nat \<Rightarrow> codeUnit" where
  "digitChar d = of_nat (48 + d)"

function natToString :: "nat \<Rightarrow> jsstring" where
  "natToString n =
     (if n < 10 then [digitChar n] else natToString (n div 10) @ [digitChar (n mod 10)])"
  by pat_completeness auto
termination
  by (relation "measure id") auto

declare natToString.simps [simp del]

definition toString :: "int \<Rightarrow> jsstring" where
  "toString i =
     (if i < 0 then of_char CHR ''-'' # natToString (nat (- i)) else natToString (nat i))"

text \<open>\<open>String.prototype.padStart\<close> with a one-character filler.\<close>

definition padStart :: "nat \<Rightarrow> codeUnit \<Rightarrow> jsstring \<Rightarrow> jsstring" where
  "padStart n c s = replicate (n - length s) c @ s"

subsection \<open>The parser and the formatter (lines 92-112)\<close>

definition partValue :: "jsstring \<Rightarrow> int" where
  "partValue part = orZero (parseInt (trim part))"

definition parseTimeInput :: "jsstring \<Rightarrow> TimeState" where
  "parseTimeInput input =
     (let parts = map partValue (split colon input) in
      if length parts = 2 then
        \<lparr>hours = 0, minutes = parts ! 0, seconds = parts ! 1\<rparr>
      else if length parts = 3 then
        \<lparr>hours = parts ! 0, minutes = parts ! 1, seconds = parts ! 2\<rparr>
      else \<lparr>hours = 0, minutes = 0, seconds = 0\<rparr>)"

definition pad2 :: "int \<Rightarrow> jsstring" where
  "pad2 n = padStart 2 (of_char CHR ''0'') (toString n)"

definition formatTime :: "TimeState \<Rightarrow> jsstring" where
  "formatTime t =
     (if hours t > 0 then
        pad2 (hours t) @ str '':'' @ pad2 (minutes t) @ str '':'' @ pad2 (seconds t)
      else pad2 (minutes t) @ str '':'' @ pad2 (seconds t))"

subsection \<open>The interval callback (lines 54-77)\<close>

text \<open>
  The value the updater passed to \<open>setTime\<close> returns. The zero test of line 59 comes
  first and returns the previous time; the last \<open>return prevTime\<close> (line 75) is reached
  when no field is positive and some field is not zero. \<open>x - 1\<close> is the predecessor,
  which is what JavaScript computes while \<open>x\<close> is safe.
\<close>

definition tickTime :: "TimeState \<Rightarrow> TimeState" where
  "tickTime prevTime =
     (if isZero prevTime then prevTime
      else if seconds prevTime > 0 then prevTime\<lparr>seconds := seconds prevTime - 1\<rparr>
      else if minutes prevTime > 0 then
        prevTime\<lparr>minutes := minutes prevTime - 1, seconds := 59\<rparr>
      else if hours prevTime > 0 then
        \<lparr>hours = hours prevTime - 1, minutes = 59, seconds = 59\<rparr>
      else prevTime)"

text \<open>
  One firing of the interval. The interval exists only under
  \<open>isRunning && !isCompleted\<close>; otherwise the effect has cleared it and nothing
  happens. In the zero branch the updater also stops the timer, marks it completed,
  shows the alert and plays the beep.
\<close>

definition tick :: "TimerState \<Rightarrow> TimerState" where
  "tick s =
     (if isRunning s \<and> \<not> isCompleted s then
        (if isZero (time s) then
           s\<lparr>isRunning := False, isCompleted := True, showAlert := True,
             beeps := beeps s + 1\<rparr>
         else s\<lparr>time := tickTime (time s)\<rparr>)
      else s)"

subsection \<open>The event handlers (lines 114-147)\<close>

definition handleInputChange :: "jsstring \<Rightarrow> TimerState \<Rightarrow> TimerState" where
  "handleInputChange v s =
     (let s1 = s\<lparr>inputValue := v\<rparr> in
      if \<not> isRunning s then s1\<lparr>time := parseTimeInput v, isCompleted := False\<rparr> else s1)"

definition handleStart :: "TimerState \<Rightarrow> TimerState" where
  "handleStart s =
     (if isZero (time s) then s else s\<lparr>isRunning := True, isCompleted := False\<rparr>)"

definition handlePause :: "TimerState \<Rightarrow> TimerState" where
  "handlePause s = s\<lparr>isRunning := False\<rparr>"

definition handleReset :: "TimerState \<Rightarrow> TimerState" where
  "handleReset s =
     s\<lparr>isRunning := False, isCompleted := False, showAlert := False,
       time := parseTimeInput (inputValue s)\<rparr>"

definition handlePreset :: "int \<Rightarrow> TimerState \<Rightarrow> TimerState" where
  "handlePreset m s =
     (if \<not> isRunning s then
        (let newTime = \<lparr>hours = 0, minutes = m, seconds = 0\<rparr> in
         s\<lparr>time := newTime, inputValue := formatTime newTime, isCompleted := False\<rparr>)
      else s)"

definition handleDismiss :: "TimerState \<Rightarrow> TimerState" where
  "handleDismiss s = s\<lparr>showAlert := False\<rparr>"

subsection \<open>The controls (lines 175-182 and 250-257)\<close>

text \<open>
  The text field and the preset buttons carry \<open>disabled={isRunning}\<close> (lines 181 and
  253). A disabled control delivers no event, so what the widget does when the user
  edits the text or selects a preset is the handler behind that gate.
\<close>

definition inputDisabled :: "TimerState \<Rightarrow> bool" where
  "inputDisabled s = isRunning s"

definition presetDisabled :: "TimerState \<Rightarrow> bool" where
  "presetDisabled s = isRunning s"

definition editInput :: "jsstring \<Rightarrow> TimerState \<Rightarrow> TimerState" where
  "editInput v s = (if inputDisabled s then s else handleInputChange v s)"

definition selectPreset :: "int \<Rightarrow> TimerState \<Rightarrow> TimerState" where
  "selectPreset m s = (if presetDisabled s then s else handlePreset m s)"

subsection \<open>The initial state and runs\<close>

text \<open>The state after mounting (lines 11-19).\<close>

definition initialState :: TimerState where
  "initialState =
     \<lparr>time = \<lparr>hours = 0, minutes = 5, seconds = 0\<rparr>, isRunning = False,
      isCompleted = False, showAlert = False, inputValue = str ''05:00'', beeps = 0\<rparr>"

text \<open>The events of the component, and a run of them from a state.\<close>

datatype Event =
  Start | Pause | Reset | Tick | Preset int | InputEdit jsstring | Dismiss

fun step :: "TimerState \<Rightarrow> Event \<Rightarrow> TimerState" where
  "step s Start = handleStart s"
| "step s Pause = handlePause s"
| "step s Reset = handleReset s"
| "step s Tick = tick s"
| "step s (Preset m) = handlePreset m s"
| "step s (InputEdit v) = handleInputChange v s"
| "step s Dismiss = handleDismiss s"

definition run :: "TimerState \<Rightarrow> Event list \<Rightarrow> TimerState" where
  "run s es = foldl step s es"

subsection \<open>The operations in the words of the specification\<close>

text \<open>
  The specification's reading of a part: it is numeric when, white space around it
  and one sign aside, it is a non-empty run of decimal digits; a part that is not
  numeric, the empty part included, counts as 0. For a numeric part the value is the
  one the source computes.
\<close>

definition isNumericPart :: "jsstring \<Rightarrow> bool" where
  "isNumericPart part =
     (stripSign (trim part) \<noteq> [] \<and> list_all (radixDigit 10) (stripSign (trim part)))"

definition specPartValue :: "jsstring \<Rightarrow> int" where
  "specPartValue part = (if isNumericPart part then partValue part else 0)"

definition specParseTimeInput :: "jsstring \<Rightarrow> TimeState" where
  "specParseTimeInput input =
     (let parts = map specPartValue (split colon input) in
      if length parts = 2 then
        \<lparr>hours = 0, minutes = parts ! 0, seconds = parts ! 1\<rparr>
      else if length parts = 3 then
        \<lparr>hours = parts ! 0, minutes = parts ! 1, seconds = parts ! 2\<rparr>
      else \<lparr>hours = 0, minutes = 0, seconds = 0\<rparr>)"

text \<open>
  The decrement of a tick as the specification words it: the last case decrements the
  hours without a test.
\<close>

definition specTickTime :: "TimeState \<Rightarrow> TimeState" where
  "specTickTime t =
     (if seconds t > 0 then t\<lparr>seconds := seconds t - 1\<rparr>
      else if minutes t > 0 then t\<lparr>minutes := minutes t - 1, seconds := 59\<rparr>
      else \<lparr>hours = hours t - 1, minutes = 59, seconds = 59\<rparr>)"

text \<open>
  The display format as the specification words it: two fields when the hours are 0,
  three otherwise.
\<close>

definition specFormatTime :: "TimeState \<Rightarrow> jsstring" where
  "specFormatTime t =
     (if hours t = 0 then pad2 (minutes t) @ str '':'' @ pad2 (seconds t)
      else pad2 (hours t) @ str '':'' @ pad2 (minutes t) @ str '':'' @ pad2 (seconds t))"

subsection \<open>Notions used in the statements\<close>

text \<open>Putting the parts of a split back together, the separator between them.\<close>

fun joinWith :: "codeUnit \<Rightarrow> jsstring list \<Rightarrow> jsstring" where
  "joinWith sep [] = []"
| "joinWith sep [p] = p"
| "joinWith sep (p # q # ps) = p @ sep # joinWith sep (q # ps)"

text \<open>
  A part in which, white space and one sign aside, nothing or something other than a
  decimal digit comes first.
\<close>

definition noLeadingDigit :: "jsstring \<Rightarrow> bool" where
  "noLeadingDigit part =
     (stripSign (trim part) = [] \<or> \<not> radixDigit 10 (hd (stripSign (trim part))))"

text \<open>
  The safe integers, \<open>Number.MAX_SAFE_INTEGER\<close> being \<open>2^53 - 1\<close>: on them the
  arithmetic and the numerals of JavaScript are exact.
\<close>

definition maxSafe :: int where
  "maxSafe = 2 ^ 53 - 1"

definition safeInt :: "int \<Rightarrow> bool" where
  "safeInt n = (- maxSafe \<le> n \<and> n \<le> maxSafe)"

definition safeTime :: "TimeState \<Rightarrow> bool" where
  "safeTime t = (safeInt (hours t) \<and> safeInt (minutes t) \<and> safeInt (seconds t))"

text \<open>An input every part of which has a safe integer as its value.\<close>

definition safeParts :: "jsstring \<Rightarrow> bool" where
  "safeParts input = list_all (\<lambda>part. safeInt (partValue part)) (split colon input)"

text \<open>A duration as the data model describes it: no field is negative.\<close>

definition nonNegative :: "TimeState \<Rightarrow> bool" where
  "nonNegative t = (0 \<le> hours t \<and> 0 \<le> minutes t \<and> 0 \<le> seconds t)"

text \<open>The length of a duration in seconds.\<close>

definition totalSeconds :: "TimeState \<Rightarrow> int" where
  "totalSeconds t = 3600 * hours t + 60 * minutes t + seconds t"

text \<open>The two flags are not both set.\<close>

definition exclusive :: "TimerState \<Rightarrow> bool" where
  "exclusive s = (\<not> (isRunning s \<and> isCompleted s))"

section \<open>Properties of the countdown engine\<close>

subsection \<open>Status and single ticks\<close>

lemma status_Running: "status s = Running \<longleftrightarrow> isRunning s \<and> \<not> isCompleted s"
  by (simp add: status_def)

lemma tickTime_nonNegative: "nonNegative t \<Longrightarrow> nonNegative (tickTime t)"
  by (simp add: nonNegative_def tickTime_def)

lemma time_tick: "time (tick s) = time s \<or> time (tick s) = tickTime (time s)"
  by (simp add: tick_def)

lemma tick_nonNegative: "nonNegative (time s) \<Longrightarrow> nonNegative (time (tick s))"
  using time_tick [of s] tickTime_nonNegative [of "time s"] by auto

lemma tick_isZero: "isZero (time s) \<Longrightarrow> time (tick s) = time s"
  by (simp add: tick_def)

lemma tick_running_step:
  assumes "status s = Running" and "\<not> isZero (time s)"
  shows "tick s = s\<lparr>time := tickTime (time s)\<rparr>"
  using assms by (simp add: tick_def status_Running)

lemma tickTime_totalSeconds:
  assumes "nonNegative t" and "\<not> isZero t"
  shows "totalSeconds (tickTime t) = totalSeconds t - 1"
  using assms by (auto simp: tickTime_def totalSeconds_def nonNegative_def isZero_def)

lemma totalSeconds_zero:
  assumes "nonNegative t"
  shows "isZero t \<longleftrightarrow> totalSeconds t = 0"
  using assms by (auto simp: totalSeconds_def nonNegative_def isZero_def)

lemma totalSeconds_nonneg: "nonNegative t \<Longrightarrow> 0 \<le> totalSeconds t"
  by (simp add: totalSeconds_def nonNegative_def)

text \<open>Inputs that the examples below start from.\<close>

lemma parse_neg: "parseTimeInput (str ''0:-5'') = \<lparr>hours = 0, minutes = 0, seconds = - 5\<rparr>"
  by code_simp

lemma parse_neg_hours:
  "parseTimeInput (str ''-1:00:00'') = \<lparr>hours = - 1, minutes = 0, seconds = 0\<rparr>"
  by code_simp

lemma parse_0_00: "parseTimeInput (str ''0:00'') = \<lparr>hours = 0, minutes = 0, seconds = 0\<rparr>"
  by code_simp

lemma parse_0_01: "parseTimeInput (str ''0:01'') = \<lparr>hours = 0, minutes = 0, seconds = 1\<rparr>"
  by code_simp

lemma parse_0_02: "parseTimeInput (str ''0:02'') = \<lparr>hours = 0, minutes = 0, seconds = 2\<rparr>"
  by code_simp

text \<open>
  Claim C1 says that a tick on a duration other than \<open>{0,0,0}\<close> decrements the hours
  when neither seconds nor minutes are positive. The source does so only under
  \<open>hours > 0\<close> (line 71) and otherwise returns the duration as it is (line 75). The
  input \<open>0:-5\<close> is parsed to minus five seconds, Start accepts it, and the tick then
  leaves it unchanged, where the claim gives \<open>{-1,59,59}\<close>.
\<close>

theorem tick_stuck_counterexample:
  "status (run initialState [InputEdit (str ''0:-5''), Start]) = Running
 \<and> time (run initialState [InputEdit (str ''0:-5''), Start])
     = \<lparr>hours = 0, minutes = 0, seconds = - 5\<rparr>
 \<and> time (tick (run initialState [InputEdit (str ''0:-5''), Start]))
     = \<lparr>hours = 0, minutes = 0, seconds = - 5\<rparr>
 \<and> specTickTime (time (run initialState [InputEdit (str ''0:-5''), Start]))
     = \<lparr>hours = - 1, minutes = 59, seconds = 59\<rparr>"
  by (simp add: run_def initialState_def handleInputChange_def handleStart_def isZero_def
      status_def tick_def tickTime_def specTickTime_def parse_neg)

text \<open>
  Claim C1, amended. While the status is Running, a tick on a duration that is not
  \<open>{0,0,0}\<close> changes nothing but the duration and applies borrow arithmetic to it:
  seconds are decremented when positive; otherwise minutes are decremented, when
  positive, and seconds become 59; otherwise hours are decremented, when positive, and
  minutes and seconds become 59; a duration with no positive field is left as it is.
  On a duration with no negative field this is the decrement the specification
  describes and takes exactly one second off. \<open>{0,1,0}\<close> becomes \<open>{0,0,59}\<close>. The
  fields are safe integers, so that the subtraction of JavaScript is exact.
\<close>

theorem tick_decrements:
  assumes "status s = Running" and "\<not> isZero (time s)" and "safeTime (time s)"
  shows "tick s = s\<lparr>time :=
            (if seconds (time s) > 0 then (time s)\<lparr>seconds := seconds (time s) - 1\<rparr>
             else if minutes (time s) > 0 then
               (time s)\<lparr>minutes := minutes (time s) - 1, seconds := 59\<rparr>
             else if hours (time s) > 0 then
               \<lparr>hours = hours (time s) - 1, minutes = 59, seconds = 59\<rparr>
             else time s)\<rparr>
       \<and> (nonNegative (time s) \<longrightarrow>
            time (tick s) = specTickTime (time s)
          \<and> totalSeconds (time (tick s)) = totalSeconds (time s) - 1)
       \<and> (time s = \<lparr>hours = 0, minutes = 1, seconds = 0\<rparr> \<longrightarrow>
            time (tick s) = \<lparr>hours = 0, minutes = 0, seconds = 59\<rparr>)"
proof -
  from assms(1,2) have t: "tick s = s\<lparr>time := tickTime (time s)\<rparr>"
    by (rule tick_running_step)
  have branches: "tickTime (time s) =
          (if seconds (time s) > 0 then (time s)\<lparr>seconds := seconds (time s) - 1\<rparr>
           else if minutes (time s) > 0 then
             (time s)\<lparr>minutes := minutes (time s) - 1, seconds := 59\<rparr>
           else if hours (time s) > 0 then
             \<lparr>hours = hours (time s) - 1, minutes = 59, seconds = 59\<rparr>
           else time s)"
    using assms(2) by (simp add: tickTime_def)
  have spec: "tickTime (time s) = specTickTime (time s)" if nn: "nonNegative (time s)"
  proof -
    from nn assms(2)
    have "seconds (time s) \<le> 0 \<Longrightarrow> minutes (time s) \<le> 0 \<Longrightarrow> hours (time s) > 0"
      by (auto simp: nonNegative_def isZero_def)
    then show ?thesis using assms(2) by (simp add: tickTime_def specTickTime_def)
  qed
  have secs: "totalSeconds (time (tick s)) = totalSeconds (time s) - 1"
    if "nonNegative (time s)"
    using that assms(2) by (simp add: t tickTime_totalSeconds)
  have ex: "time s = \<lparr>hours = 0, minutes = 1, seconds = 0\<rparr> \<longrightarrow>
      time (tick s) = \<lparr>hours = 0, minutes = 0, seconds = 59\<rparr>"
    by (simp add: t tickTime_def isZero_def)
  show ?thesis using t branches spec secs ex by simp
qed

theorem tick_decrements_witness:
  "status (handleStart (handlePreset 1 initialState)) = Running
 \<and> safeTime (time (handleStart (handlePreset 1 initialState)))
 \<and> nonNegative (time (handleStart (handlePreset 1 initialState)))
 \<and> \<not> isZero (time (handleStart (handlePreset 1 initialState)))
 \<and> time (handleStart (handlePreset 1 initialState)) = \<lparr>hours = 0, minutes = 1, seconds = 0\<rparr>
 \<and> time (tick (handleStart (handlePreset 1 initialState)))
     = \<lparr>hours = 0, minutes = 0, seconds = 59\<rparr>
 \<and> totalSeconds (time (tick (handleStart (handlePreset 1 initialState)))) = 59"
  using tick_decrements [of "handleStart (handlePreset 1 initialState)"]
  by (simp add: initialState_def handlePreset_def handleStart_def isZero_def status_def
      nonNegative_def totalSeconds_def safeTime_def safeInt_def maxSafe_def Let_def)

subsection \<open>Reaching zero\<close>

lemma funpow_tick_stopped: "\<not> isRunning s \<Longrightarrow> (tick ^^ n) s = s"
  by (induction n) (simp_all add: tick_def)

lemma funpow_tick_nonNegative:
  "nonNegative (time s) \<Longrightarrow> nonNegative (time ((tick ^^ n) s))"
  by (induction n) (simp_all add: tick_nonNegative)

lemma funpow_tick_isZero: "isZero (time s) \<Longrightarrow> time ((tick ^^ n) s) = time s"
proof (induction n)
  case 0
  show ?case by simp
next
  case (Suc n)
  then have "isZero (time ((tick ^^ n) s))" by simp
  then have "time (tick ((tick ^^ n) s)) = time ((tick ^^ n) s)" by (rule tick_isZero)
  with Suc show ?case by simp
qed

text \<open>
  A running countdown over a duration of \<open>n\<close> seconds shows zero after \<open>n\<close> ticks and
  is still running then.
\<close>

lemma countdown_reaches_zero:
  assumes "status s = Running" and "nonNegative (time s)"
    and "n = nat (totalSeconds (time s))"
  shows "isZero (time ((tick ^^ n) s)) \<and> status ((tick ^^ n) s) = Running"
  using assms
proof (induction n arbitrary: s)
  case 0
  then have "totalSeconds (time s) = 0"
    using totalSeconds_nonneg [of "time s"] by simp
  with 0 show ?case by (simp add: totalSeconds_zero)
next
  case (Suc n)
  then have nz: "\<not> isZero (time s)" by (auto simp: totalSeconds_zero)
  with Suc.prems have t: "tick s = s\<lparr>time := tickTime (time s)\<rparr>"
    by (simp add: tick_running_step)
  have "status (tick s) = Running" using Suc.prems(1) by (simp add: t status_Running)
  moreover have "nonNegative (time (tick s))" using Suc.prems(2) by (rule tick_nonNegative)
  moreover have "n = nat (totalSeconds (time (tick s)))"
    using Suc.prems nz by (simp add: t tickTime_totalSeconds)
  ultimately
  have "isZero (time ((tick ^^ n) (tick s))) \<and> status ((tick ^^ n) (tick s)) = Running"
    by (rule Suc.IH)
  then show ?case by (simp add: funpow_swap1)
qed

text \<open>
  Claim C10. A tick keeps every field of a duration non-negative when all were so
  before, and so does any number of ticks. The countdown stops at \<open>{0,0,0}\<close>: a
  duration of zero stays zero under any number of ticks, and a running countdown over
  safe integers reaches zero after as many ticks as it has seconds and shows zero from
  then on.
\<close>

theorem ticks_nonNegative:
  assumes "nonNegative (time s)"
  shows "nonNegative (time (tick s))
       \<and> nonNegative (time ((tick ^^ n) s))
       \<and> (isZero (time s) \<longrightarrow> time ((tick ^^ n) s) = time s)
       \<and> (status s = Running \<and> safeTime (time s) \<longrightarrow>
            isZero (time ((tick ^^ nat (totalSeconds (time s))) s))
          \<and> (nat (totalSeconds (time s)) \<le> n \<longrightarrow> isZero (time ((tick ^^ n) s))))"
proof -
  have "isZero (time ((tick ^^ n) s))"
    if r: "status s = Running" and le: "nat (totalSeconds (time s)) \<le> n"
  proof -
    define k where "k = nat (totalSeconds (time s))"
    define z where "z = (tick ^^ k) s"
    have z: "isZero (time z)"
      using countdown_reaches_zero [OF r assms k_def] by (simp add: z_def)
    have "(tick ^^ n) s = (tick ^^ (n - k)) z"
    proof -
      from le have "n = (n - k) + k" by (simp add: k_def)
      then have "(tick ^^ n) s = (tick ^^ ((n - k) + k)) s" by simp
      then show ?thesis by (simp only: funpow_add o_apply z_def)
    qed
    with z show ?thesis by (simp add: funpow_tick_isZero)
  qed
  then show ?thesis
    using assms countdown_reaches_zero [of s "nat (totalSeconds (time s))"]
    by (simp add: tick_nonNegative funpow_tick_nonNegative funpow_tick_isZero)
qed

theorem ticks_nonNegative_witness:
  "nonNegative (time (handleStart (handleInputChange (str ''0:02'') initialState)))
 \<and> safeTime (time (handleStart (handleInputChange (str ''0:02'') initialState)))
 \<and> status (handleStart (handleInputChange (str ''0:02'') initialState)) = Running
 \<and> nat (totalSeconds (time (handleStart (handleInputChange (str ''0:02'') initialState)))) \<le> 3
 \<and> isZero (time ((tick ^^ 3) (handleStart (handleInputChange (str ''0:02'') initialState))))
 \<and> nonNegative (time ((tick ^^ 3) (handleStart (handleInputChange (str ''0:02'') initialState))))
 \<and> isZero (time (handleInputChange (str ''0:00'') initialState))
 \<and> time ((tick ^^ 3) (handleInputChange (str ''0:00'') initialState))
     = \<lparr>hours = 0, minutes = 0, seconds = 0\<rparr>"
  using ticks_nonNegative [of "handleStart (handleInputChange (str ''0:02'') initialState)" 3]
    ticks_nonNegative [of "handleInputChange (str ''0:00'') initialState" 3]
  by (simp add: initialState_def handleInputChange_def handleStart_def isZero_def status_def
      nonNegative_def totalSeconds_def safeTime_def safeInt_def maxSafe_def
      parse_0_00 parse_0_02)

subsection \<open>Completion\<close>

text \<open>
  Claim C2. A tick while Running on a duration of exactly \<open>{0,0,0}\<close> does not
  decrement: the status goes from Running to Completed, the notifier fires once (one
  beep, the alert shown), the duration stays \<open>{0,0,0}\<close>, and no later tick fires it
  again. From \<open>{0,0,1}\<close> one tick gives \<open>{0,0,0}\<close> with the status still Running and
  no beep; the tick after that completes.
\<close>

theorem tick_completes:
  "(status s = Running \<and> isZero (time s) \<longrightarrow>
       tick s = s\<lparr>isRunning := False, isCompleted := True, showAlert := True,
                   beeps := beeps s + 1\<rparr>
     \<and> time (tick s) = zeroTime
     \<and> status (tick s) = Completed
     \<and> showAlert (tick s)
     \<and> beeps (tick s) = beeps s + 1
     \<and> (tick ^^ n) (tick s) = tick s)
 \<and> (status s = Running \<and> time s = \<lparr>hours = 0, minutes = 0, seconds = 1\<rparr> \<longrightarrow>
       time (tick s) = zeroTime
     \<and> status (tick s) = Running
     \<and> beeps (tick s) = beeps s
     \<and> showAlert (tick s) = showAlert s
     \<and> time (tick (tick s)) = zeroTime
     \<and> status (tick (tick s)) = Completed
     \<and> beeps (tick (tick s)) = beeps s + 1)"
proof -
  have stop: "(tick ^^ n) (tick s) = tick s" if "status s = Running" "isZero (time s)"
  proof -
    from that have "\<not> isRunning (tick s)" by (simp add: tick_def status_Running)
    then show ?thesis by (rule funpow_tick_stopped)
  qed
  have zero: "time s = zeroTime" if "isZero (time s)"
    using that by (simp add: isZero_def zeroTime_def)
  show ?thesis
    using stop zero
    by (simp add: tick_def tickTime_def status_def isZero_def zeroTime_def)
qed

theorem tick_completes_witness:
  "status (handleStart (handleInputChange (str ''0:01'') initialState)) = Running
 \<and> time (handleStart (handleInputChange (str ''0:01'') initialState))
     = \<lparr>hours = 0, minutes = 0, seconds = 1\<rparr>
 \<and> status (tick (handleStart (handleInputChange (str ''0:01'') initialState))) = Running
 \<and> isZero (time (tick (handleStart (handleInputChange (str ''0:01'') initialState))))
 \<and> status (tick (tick (handleStart (handleInputChange (str ''0:01'') initialState)))) = Completed
 \<and> beeps (tick (tick (handleStart (handleInputChange (str ''0:01'') initialState)))) = 1
 \<and> (tick ^^ 5) (tick (tick (handleStart (handleInputChange (str ''0:01'') initialState))))
     = tick (tick (handleStart (handleInputChange (str ''0:01'') initialState)))"
  using tick_completes [of "handleStart (handleInputChange (str ''0:01'') initialState)" 5]
    tick_completes [of "tick (handleStart (handleInputChange (str ''0:01'') initialState))" 5]
  by (simp add: initialState_def handleInputChange_def handleStart_def isZero_def status_def
      tick_def tickTime_def zeroTime_def parse_0_01)

subsection \<open>Start, Pause and Reset\<close>

text \<open>
  Claim C4. Start is guarded. On a duration of \<open>{0,0,0}\<close> it changes nothing at all,
  so an Idle timer stays Idle. On any other duration, when the status is not Running,
  it sets the status to Running, with the completed flag cleared, and leaves the
  duration (and everything else) as it was.
\<close>

theorem start_guarded:
  "(isZero (time s) \<longrightarrow>
       handleStart s = s \<and> (status s = Idle \<longrightarrow> status (handleStart s) = Idle))
 \<and> (\<not> isZero (time s) \<and> status s \<noteq> Running \<longrightarrow>
       handleStart s = s\<lparr>isRunning := True, isCompleted := False\<rparr>
     \<and> status (handleStart s) = Running
     \<and> \<not> isCompleted (handleStart s)
     \<and> time (handleStart s) = time s)"
  by (simp add: handleStart_def status_def)

theorem start_guarded_witness:
  "isZero (time (handleInputChange (str ''0:00'') initialState))
 \<and> status (handleInputChange (str ''0:00'') initialState) = Idle
 \<and> status (handleStart (handleInputChange (str ''0:00'') initialState)) = Idle
 \<and> \<not> isZero (time initialState)
 \<and> status initialState \<noteq> Running
 \<and> status (handleStart initialState) = Running
 \<and> time (handleStart initialState) = \<lparr>hours = 0, minutes = 5, seconds = 0\<rparr>"
  using start_guarded [of "handleInputChange (str ''0:00'') initialState"]
    start_guarded [of initialState]
  by (simp add: initialState_def handleInputChange_def isZero_def status_def parse_0_00)

text \<open>
  Claim C5. From every state, Reset leads to Idle: running and completed flags are
  cleared, the alert is taken down, and the duration becomes what the parser returns on
  the input text stored at that moment. The input text itself is kept, and nothing is
  played.
\<close>

theorem reset_to_idle:
  "status (handleReset s) = Idle
 \<and> \<not> isRunning (handleReset s)
 \<and> \<not> isCompleted (handleReset s)
 \<and> \<not> showAlert (handleReset s)
 \<and> time (handleReset s) = parseTimeInput (inputValue s)
 \<and> inputValue (handleReset s) = inputValue s
 \<and> beeps (handleReset s) = beeps s"
  by (simp add: handleReset_def status_def)

text \<open>
  Claim C8. Pause is idempotent. While the timer is not running it changes nothing;
  while Running it leads to Idle; it never touches the duration; and pausing twice is
  pausing once.
\<close>

theorem pause_idempotent:
  "handlePause (handlePause s) = handlePause s
 \<and> (\<not> isRunning s \<longrightarrow> handlePause s = s)
 \<and> (status s = Running \<longrightarrow> status (handlePause s) = Idle)
 \<and> time (handlePause s) = time s"
  by (simp add: handlePause_def status_def)

theorem pause_idempotent_witness:
  "\<not> isRunning initialState
 \<and> handlePause initialState = initialState
 \<and> status (handleStart initialState) = Running
 \<and> status (handlePause (handleStart initialState)) = Idle
 \<and> time (handlePause (handleStart initialState)) = \<lparr>hours = 0, minutes = 5, seconds = 0\<rparr>"
  using pause_idempotent [of initialState] pause_idempotent [of "handleStart initialState"]
  by (simp add: initialState_def handleStart_def isZero_def status_def)

subsection \<open>The two flags\<close>

lemma step_exclusive: "exclusive s \<Longrightarrow> exclusive (step s e)"
  by (cases e)
    (auto simp: exclusive_def handleStart_def handlePause_def handleReset_def tick_def
      handlePreset_def handleInputChange_def handleDismiss_def Let_def)

lemma foldl_step_exclusive: "exclusive s \<Longrightarrow> exclusive (foldl step s es)"
  by (induction es arbitrary: s) (simp_all add: step_exclusive)

text \<open>
  Claim C9. In every state the component reaches from its initial state by a
  sequence of Start, Pause, Reset, Tick, preset selections and input edits (and
  dismissals of the alert), \<open>isRunning\<close> and \<open>isCompleted\<close> are not both true.
\<close>

theorem running_completed_exclusive:
  "\<not> (isRunning (run initialState es) \<and> isCompleted (run initialState es))"
proof -
  have "exclusive initialState" by (simp add: exclusive_def initialState_def)
  then have "exclusive (run initialState es)"
    unfolding run_def by (rule foldl_step_exclusive)
  then show ?thesis by (simp add: exclusive_def)
qed

subsection \<open>Presets and edits while running\<close>

text \<open>
  Claim C6. While the status is Running, selecting a preset and editing the input
  text change nothing: duration, status, stored input text and all the rest of the
  state stay as they are. The preset handler returns at once, and the text field is
  disabled, so that its handler is not called. While not Running both take effect: the
  preset sets the duration to its minutes and the input text to the formatted
  duration, the edit stores the text and sets the duration to what the parser makes of
  it, and both clear the completed flag.
\<close>

theorem preset_edit_while_running:
  "(status s = Running \<or> isRunning s \<longrightarrow>
       selectPreset m s = s \<and> handlePreset m s = s \<and> editInput v s = s)
 \<and> (\<not> isRunning s \<longrightarrow>
       selectPreset m s =
         s\<lparr>time := \<lparr>hours = 0, minutes = m, seconds = 0\<rparr>,
           inputValue := formatTime \<lparr>hours = 0, minutes = m, seconds = 0\<rparr>,
           isCompleted := False\<rparr>
     \<and> editInput v s =
         s\<lparr>inputValue := v, time := parseTimeInput v, isCompleted := False\<rparr>)"
proof -
  have "isRunning s" if "status s = Running"
    using that by (simp add: status_Running)
  then show ?thesis
    by (auto simp: selectPreset_def editInput_def presetDisabled_def inputDisabled_def
        handlePreset_def handleInputChange_def Let_def)
qed

theorem preset_edit_while_running_witness:
  "status (handleStart initialState) = Running
 \<and> selectPreset 10 (handleStart initialState) = handleStart initialState
 \<and> editInput (str ''0:01'') (handleStart initialState) = handleStart initialState
 \<and> \<not> isRunning initialState
 \<and> time (selectPreset 10 initialState) = \<lparr>hours = 0, minutes = 10, seconds = 0\<rparr>
 \<and> time (editInput (str ''0:01'') initialState) = \<lparr>hours = 0, minutes = 0, seconds = 1\<rparr>
 \<and> inputValue (editInput (str ''0:01'') initialState) = str ''0:01''"
  using preset_edit_while_running [of "handleStart initialState" 10 "str ''0:01''"]
    preset_edit_while_running [of initialState 10 "str ''0:01''"]
  by (simp add: initialState_def handleStart_def isZero_def status_def parse_0_01)

section \<open>Properties of the formatter and the parser\<close>

subsection \<open>Decimal digits\<close>

lemma unat_digitChar: "d < 10 \<Longrightarrow> unat (digitChar d) = 48 + d"
  unfolding digitChar_def by (simp only: unat_of_nat) simp

lemma digitVal_digitChar: "d < 10 \<Longrightarrow> digitVal (digitChar d) = d"
  by (simp add: digitVal_def unat_digitChar)

lemma radixDigit_digitChar: "d < 10 \<Longrightarrow> radixDigit 10 (digitChar d)"
  by (simp add: radixDigit_def digitVal_digitChar)

lemma natToString_small: "n < 10 \<Longrightarrow> natToString n = [digitChar n]"
  by (simp add: natToString.simps)

lemma natToString_large:
  "10 \<le> n \<Longrightarrow> natToString n = natToString (n div 10) @ [digitChar (n mod 10)]"
  by (subst natToString.simps) simp

lemma natToString_nonempty: "natToString n \<noteq> []"
  by (subst natToString.simps) simp

lemma length_natToString: "10 \<le> n \<Longrightarrow> 2 \<le> length (natToString n)"
proof -
  assume "10 \<le> n"
  then have "length (natToString n) = Suc (length (natToString (n div 10)))"
    by (simp add: natToString_large)
  moreover have "natToString (n div 10) \<noteq> []"
    by (rule natToString_nonempty)
  ultimately show ?thesis by (cases "natToString (n div 10)") simp_all
qed

lemma natToString_digits: "list_all (radixDigit 10) (natToString n)"
proof (induction n rule: natToString.induct)
  case (1 n)
  show ?case
  proof (cases "n < 10")
    case True
    then show ?thesis by (simp add: natToString_small radixDigit_digitChar)
  next
    case False
    with 1 show ?thesis by (simp add: natToString_large radixDigit_digitChar)
  qed
qed

lemma radixValue_snoc: "radixValue R (Z @ [c]) = radixValue R Z * R + digitVal c"
  by (simp add: radixValue_def)

lemma radixValue_natToString: "radixValue 10 (natToString n) = n"
proof (induction n rule: natToString.induct)
  case (1 n)
  show ?case
  proof (cases "n < 10")
    case True
    then show ?thesis by (simp add: natToString_small radixValue_def digitVal_digitChar)
  next
    case False
    with 1 show ?thesis
      by (simp add: natToString_large radixValue_snoc digitVal_digitChar)
  qed
qed

lemma pad2_small: "0 \<le> n \<Longrightarrow> n < 10 \<Longrightarrow> pad2 n = [of_char CHR ''0'', digitChar (nat n)]"
  by (simp add: pad2_def padStart_def toString_def natToString_small)

lemma pad2_large: "10 \<le> n \<Longrightarrow> pad2 n = toString n"
  using length_natToString [of "nat n"] by (simp add: pad2_def padStart_def toString_def)

lemma length_pad2: "2 \<le> length (pad2 n)"
  by (simp add: pad2_def padStart_def)

lemma pad2_negative: "n < 0 \<Longrightarrow> pad2 n = of_char CHR ''-'' # toString (- n)"
  using natToString_nonempty [of "nat (- n)"]
  by (cases "natToString (nat (- n))") (simp_all add: pad2_def padStart_def toString_def)

subsection \<open>The display format\<close>

text \<open>
  Claim C7 says that the formatter shows three fields whenever the hours are not 0.
  The source tests \<open>hours > 0\<close> (line 104): the input \<open>-1:00:00\<close> is parsed to minus
  one hour, and that duration is shown as \<open>00:00\<close>, where the claim gives
  \<open>-1:00:00\<close>.
\<close>

theorem formatTime_counterexample:
  "hours (parseTimeInput (str ''-1:00:00'')) \<noteq> 0
 \<and> formatTime (parseTimeInput (str ''-1:00:00'')) = str ''00:00''
 \<and> specFormatTime (parseTimeInput (str ''-1:00:00'')) = str ''-1:00:00''"
  by code_simp

text \<open>
  Claim C7, amended. On a duration whose fields are safe integers the formatter
  returns hours, minutes and seconds, \<open>HH:MM:SS\<close>, when the hours are positive and
  minutes and seconds, \<open>MM:SS\<close>, otherwise; with hours that are not negative this is
  the format the specification describes. Each field is padded with zeros on the left
  to at least two characters: a value from 0 to 9 is a \<open>0\<close> and its digit, a value from
  10 on is its decimal numeral, never shortened, and a negative value is a minus sign
  and the numeral of its magnitude. \<open>{0,5,0}\<close> is shown as \<open>05:00\<close>, \<open>{1,0,0}\<close> as
  \<open>01:00:00\<close>, \<open>{0,10,5}\<close> as \<open>10:05\<close> and \<open>{12,34,56}\<close> as \<open>12:34:56\<close>.
\<close>

theorem formatTime_shape:
  assumes "safeTime t" and "safeInt n"
  shows "formatTime t =
           (if hours t \<le> 0 then pad2 (minutes t) @ str '':'' @ pad2 (seconds t)
            else pad2 (hours t) @ str '':'' @ pad2 (minutes t) @ str '':'' @ pad2 (seconds t))
       \<and> (0 \<le> hours t \<longrightarrow> formatTime t = specFormatTime t)
       \<and> (0 \<le> n \<and> n < 10 \<longrightarrow> pad2 n = [of_char CHR ''0'', digitChar (nat n)])
       \<and> (10 \<le> n \<longrightarrow> pad2 n = toString n)
       \<and> (0 \<le> n \<longrightarrow> list_all (radixDigit 10) (toString n)
                    \<and> int (radixValue 10 (toString n)) = n)
       \<and> (n < 0 \<longrightarrow> pad2 n = of_char CHR ''-'' # toString (- n))
       \<and> 2 \<le> length (pad2 n)
       \<and> formatTime \<lparr>hours = 0, minutes = 5, seconds = 0\<rparr> = str ''05:00''
       \<and> formatTime \<lparr>hours = 1, minutes = 0, seconds = 0\<rparr> = str ''01:00:00''
       \<and> formatTime \<lparr>hours = 0, minutes = 10, seconds = 5\<rparr> = str ''10:05''
       \<and> formatTime \<lparr>hours = 12, minutes = 34, seconds = 56\<rparr> = str ''12:34:56''"
proof -
  have shape: "formatTime t =
     (if hours t \<le> 0 then pad2 (minutes t) @ str '':'' @ pad2 (seconds t)
      else pad2 (hours t) @ str '':'' @ pad2 (minutes t) @ str '':'' @ pad2 (seconds t))"
    by (simp add: formatTime_def)
  have spec: "0 \<le> hours t \<longrightarrow> formatTime t = specFormatTime t"
    by (simp add: formatTime_def specFormatTime_def)
  have small: "0 \<le> n \<and> n < 10 \<longrightarrow> pad2 n = [of_char CHR ''0'', digitChar (nat n)]"
    by (simp add: pad2_small)
  have large: "10 \<le> n \<longrightarrow> pad2 n = toString n"
    by (simp add: pad2_large)
  have dec: "0 \<le> n \<longrightarrow> list_all (radixDigit 10) (toString n)
                    \<and> int (radixValue 10 (toString n)) = n"
    by (simp add: toString_def natToString_digits radixValue_natToString)
  have neg: "n < 0 \<longrightarrow> pad2 n = of_char CHR ''-'' # toString (- n)"
    by (simp add: pad2_negative)
  have e1: "formatTime \<lparr>hours = 0, minutes = 5, seconds = 0\<rparr> = str ''05:00''"
    by code_simp
  have e2: "formatTime \<lparr>hours = 1, minutes = 0, seconds = 0\<rparr> = str ''01:00:00''"
    by code_simp
  have e3: "formatTime \<lparr>hours = 0, minutes = 10, seconds = 5\<rparr> = str ''10:05''"
    by code_simp
  have e4: "formatTime \<lparr>hours = 12, minutes = 34, seconds = 56\<rparr> = str ''12:34:56''"
    by code_simp
  show ?thesis
    using shape spec small large dec neg length_pad2 [of n] e1 e2 e3 e4 by blast
qed

theorem formatTime_shape_witness:
  "safeTime \<lparr>hours = 1, minutes = 0, seconds = 0\<rparr>
 \<and> safeInt 7
 \<and> formatTime \<lparr>hours = 1, minutes = 0, seconds = 0\<rparr>
     = specFormatTime \<lparr>hours = 1, minutes = 0, seconds = 0\<rparr>
 \<and> pad2 7 = [of_char CHR ''0'', digitChar 7]
 \<and> safeTime \<lparr>hours = 0, minutes = 5, seconds = 0\<rparr>
 \<and> safeInt 12
 \<and> pad2 12 = toString 12
 \<and> int (radixValue 10 (toString 12)) = 12
 \<and> safeInt (- 3)
 \<and> pad2 (- 3) = of_char CHR ''-'' # toString 3"
proof -
  have s1: "safeTime \<lparr>hours = 1, minutes = 0, seconds = 0\<rparr>"
    and s2: "safeTime \<lparr>hours = 0, minutes = 5, seconds = 0\<rparr>"
    and s3: "safeInt 7" and s4: "safeInt 12" and s5: "safeInt (- 3)"
    by (simp_all add: safeTime_def safeInt_def maxSafe_def)
  show ?thesis
    using s1 s2 s3 s4 s5 formatTime_shape [OF s1 s3] formatTime_shape [OF s2 s4]
      formatTime_shape [OF s2 s5]
    by (simp add: specFormatTime_def)
qed

subsection \<open>Splitting and trimming\<close>

lemma split_nonempty: "split sep s \<noteq> []"
  by (induction s) (simp_all add: Let_def)

lemma length_split: "length (split sep s) = Suc (count_list s sep)"
proof (induction s)
  case Nil
  show ?case by simp
next
  case (Cons c cs)
  have "length (tl (split sep cs)) = count_list cs sep"
    using Cons by simp
  with Cons show ?case by (simp add: Let_def)
qed

lemma split_parts: "list_all (\<lambda>p. sep \<notin> set p) (split sep s)"
proof (induction s)
  case Nil
  show ?case by simp
next
  case (Cons c cs)
  obtain p ps where r: "split sep cs = p # ps"
    using split_nonempty [of sep cs] by (cases "split sep cs") auto
  with Cons show ?case by (simp add: Let_def)
qed

lemma joinWith_Cons: "ps \<noteq> [] \<Longrightarrow> joinWith sep (p # ps) = p @ sep # joinWith sep ps"
  by (cases ps) simp_all

lemma joinWith_split: "joinWith sep (split sep s) = s"
proof (induction s)
  case Nil
  show ?case by simp
next
  case (Cons c cs)
  obtain p ps where r: "split sep cs = p # ps"
    using split_nonempty [of sep cs] by (cases "split sep cs") auto
  show ?case
  proof (cases "c = sep")
    case True
    with Cons show ?thesis by (simp add: Let_def joinWith_Cons split_nonempty)
  next
    case False
    with Cons r show ?thesis by (cases ps) (simp_all add: Let_def)
  qed
qed

lemma dropWhile_snoc: "\<not> P x \<Longrightarrow> dropWhile P (ys @ [x]) = dropWhile P ys @ [x]"
  by (induction ys) simp_all

lemma dropWhile_rev_keeps_head:
  assumes "xs \<noteq> []" and "\<not> P (hd xs)"
  shows "rev (dropWhile P (rev xs)) = hd xs # rev (dropWhile P (rev (tl xs)))"
proof -
  from assms(1) obtain x xs' where xs: "xs = x # xs'" by (cases xs) auto
  with assms(2) have "dropWhile P (rev xs' @ [x]) = dropWhile P (rev xs') @ [x]"
    by (simp add: dropWhile_snoc)
  then show ?thesis using xs by simp
qed

lemma trim_head: "trim p = [] \<or> \<not> isWhiteSpace (hd (trim p))"
proof (cases "dropWhile isWhiteSpace p = []")
  case True
  show ?thesis unfolding trim_def True by simp
next
  case False
  then have h: "\<not> isWhiteSpace (hd (dropWhile isWhiteSpace p))"
    by (rule hd_dropWhile)
  from False h have "hd (trim p) = hd (dropWhile isWhiteSpace p)"
    unfolding trim_def by (simp add: dropWhile_rev_keeps_head)
  with h show ?thesis by simp
qed

lemma trimStart_trim: "trimStart (trim p) = trim p"
  using trim_head [of p] by (cases "trim p") (auto simp: trimStart_def)

subsection \<open>The value of a part\<close>

lemma takeWhile_prefix:
  assumes "list_all P ds" and "rest = [] \<or> \<not> P (hd rest)"
  shows "takeWhile P (ds @ rest) = ds"
proof -
  have "takeWhile P rest = []" using assms(2) by (cases rest) auto
  moreover have "\<forall>x\<in>set ds. P x" using assms(1) by (simp add: list_all_iff)
  ultimately show ?thesis by (simp add: takeWhile_append2)
qed

lemma partValue_unfold:
  "partValue p =
     (let S1 = stripSign (trim p);
          R = (if hexPrefix S1 then 16 else 10 :: nat);
          Z = takeWhile (radixDigit R) (if hexPrefix S1 then drop 2 S1 else S1)
      in if Z = [] then 0 else signOf (trim p) * int (radixValue R Z))"
  by (simp add: partValue_def parseInt_def trimStart_trim orZero_def Let_def)

lemma radixValue_Nil: "radixValue R [] = 0"
  by (simp add: radixValue_def)

lemma partValue_decimal:
  assumes "stripSign (trim p) = ds @ rest" and "list_all (radixDigit 10) ds"
    and "rest = [] \<or> \<not> radixDigit 10 (hd rest)" and "\<not> hexPrefix (ds @ rest)"
  shows "partValue p = signOf (trim p) * int (radixValue 10 ds)"
proof -
  have "takeWhile (radixDigit 10) (ds @ rest) = ds"
    using assms(2,3) by (rule takeWhile_prefix)
  then show ?thesis
    using assms(1,4) by (simp add: partValue_unfold radixValue_Nil)
qed

lemma partValue_hex:
  assumes "stripSign (trim p) = pre @ hs @ rest" and "pre = str ''0x'' \<or> pre = str ''0X''"
    and "list_all (radixDigit 16) hs" and "rest = [] \<or> \<not> radixDigit 16 (hd rest)"
  shows "partValue p = signOf (trim p) * int (radixValue 16 hs)"
proof -
  have "takeWhile (radixDigit 16) (hs @ rest) = hs"
    using assms(3,4) by (rule takeWhile_prefix)
  moreover have "hexPrefix (pre @ hs @ rest)" and "drop 2 (pre @ hs @ rest) = hs @ rest"
    using assms(2) by (auto simp: hexPrefix_def str_def)
  ultimately show ?thesis
    using assms(1) by (simp add: partValue_unfold radixValue_Nil)
qed

lemma partValue_no_digit:
  assumes "stripSign (trim p) = [] \<or> \<not> radixDigit 10 (hd (stripSign (trim p)))"
  shows "partValue p = 0"
proof -
  define u where "u = stripSign (trim p)"
  have nohex: "\<not> hexPrefix u"
  proof
    assume "hexPrefix u"
    then obtain c cs where "u = of_char CHR ''0'' # c # cs"
      by (cases u; cases "tl u") (auto simp: hexPrefix_def str_def)
    then have "u \<noteq> []" and "radixDigit 10 (hd u)"
      by (simp_all add: radixDigit_def digitVal_def)
    with assms show False by (simp add: u_def)
  qed
  have "takeWhile (radixDigit 10) u = []"
    using assms by (cases u) (auto simp: u_def)
  with nohex show ?thesis by (simp add: partValue_unfold u_def)
qed


subsection \<open>The parser\<close>

lemma partValue_spec_agree:
  assumes "isNumericPart p \<or> noLeadingDigit p"
  shows "partValue p = specPartValue p"
  using assms partValue_no_digit [of p]
  by (auto simp: specPartValue_def noLeadingDigit_def)

lemma parseTimeInput_spec_agree:
  assumes "list_all (\<lambda>p. isNumericPart p \<or> noLeadingDigit p) (split colon s)"
  shows "parseTimeInput s = specParseTimeInput s"
proof -
  have eq: "map partValue (split colon s) = map specPartValue (split colon s)"
    using assms by (simp add: list_all_iff partValue_spec_agree)
  show ?thesis unfolding parseTimeInput_def specParseTimeInput_def by (simp only: eq)
qed

lemma parseTimeInput_shape:
  "parseTimeInput s =
     (if length (split colon s) = 2 then
        \<lparr>hours = 0, minutes = partValue (split colon s ! 0),
         seconds = partValue (split colon s ! 1)\<rparr>
      else if length (split colon s) = 3 then
        \<lparr>hours = partValue (split colon s ! 0),
         minutes = partValue (split colon s ! 1),
         seconds = partValue (split colon s ! 2)\<rparr>
      else \<lparr>hours = 0, minutes = 0, seconds = 0\<rparr>)"
  by (simp add: parseTimeInput_def Let_def)

text \<open>
  Claim C3 says that every part that is not numeric counts as 0. \<open>parseInt\<close> reads
  the digits a part starts with and ignores the rest: the part \<open>1a\<close> is not a number,
  yet \<open>1a:00\<close> is parsed to one minute where the claim gives \<open>{0,0,0}\<close>.
\<close>

theorem parseTimeInput_counterexample:
  "split colon (str ''1a:00'') = [str ''1a'', str ''00'']
 \<and> \<not> isNumericPart (str ''1a'')
 \<and> specParseTimeInput (str ''1a:00'') = \<lparr>hours = 0, minutes = 0, seconds = 0\<rparr>
 \<and> parseTimeInput (str ''1a:00'') = \<lparr>hours = 0, minutes = 1, seconds = 0\<rparr>"
  by code_simp

text \<open>
  Claim C3, amended. The parser splits the input at every colon: there is one part
  more than there are colons, no part holds a colon, and the parts joined by colons
  are the input. Where the digits of every part denote a safe integer, the result is
  \<open>{0, part0, part1}\<close> with exactly 2 parts, \<open>{part0, part1, part2}\<close> with exactly 3
  parts and \<open>{0,0,0}\<close> with any other number. A part is trimmed and read by the digits
  it starts with, after an optional sign: it counts as 0 when no digit comes first, as
  the signed decimal value of its leading digits otherwise, whatever follows them, and
  as the signed hexadecimal value of the digits after a prefix \<open>0x\<close> or \<open>0X\<close>, as long
  as that value is a safe integer. Where in addition every part is numeric or starts
  with no digit, the result is the one the specification describes. \<open>05:00\<close> gives
  \<open>{0,5,0}\<close>, \<open>1:02:03\<close> gives \<open>{1,2,3}\<close>, \<open>abc\<close> and the empty input give
  \<open>{0,0,0}\<close>; with signs and white space, \<open> 7 : -08 \<close> gives \<open>{0,7,-8}\<close>, and a
  byte order mark and an em space around a part are trimmed like any white space. The
  parser is a total function: no input raises an error.
\<close>

theorem parseTimeInput_parts:
  "length (split colon s) = Suc (count_list s colon)
 \<and> joinWith colon (split colon s) = s
 \<and> list_all (\<lambda>p. colon \<notin> set p) (split colon s)
 \<and> (safeParts s \<longrightarrow>
      parseTimeInput s =
        (if length (split colon s) = 2 then
           \<lparr>hours = 0, minutes = partValue (split colon s ! 0),
            seconds = partValue (split colon s ! 1)\<rparr>
         else if length (split colon s) = 3 then
           \<lparr>hours = partValue (split colon s ! 0),
            minutes = partValue (split colon s ! 1),
            seconds = partValue (split colon s ! 2)\<rparr>
         else \<lparr>hours = 0, minutes = 0, seconds = 0\<rparr>))
 \<and> (noLeadingDigit p \<longrightarrow> partValue p = 0)
 \<and> (stripSign (trim p) = ds @ rest \<and> list_all (radixDigit 10) ds
      \<and> (rest = [] \<or> \<not> radixDigit 10 (hd rest)) \<and> \<not> hexPrefix (ds @ rest)
      \<and> int (radixValue 10 ds) \<le> maxSafe \<longrightarrow>
        partValue p = signOf (trim p) * int (radixValue 10 ds))
 \<and> (stripSign (trim p) = pre @ hs @ rest \<and> (pre = str ''0x'' \<or> pre = str ''0X'')
      \<and> list_all (radixDigit 16) hs \<and> (rest = [] \<or> \<not> radixDigit 16 (hd rest))
      \<and> int (radixValue 16 hs) \<le> maxSafe \<longrightarrow>
        partValue p = signOf (trim p) * int (radixValue 16 hs))
 \<and> (safeParts s
      \<and> list_all (\<lambda>p. isNumericPart p \<or> noLeadingDigit p) (split colon s) \<longrightarrow>
        parseTimeInput s = specParseTimeInput s)
 \<and> parseTimeInput (str ''05:00'') = \<lparr>hours = 0, minutes = 5, seconds = 0\<rparr>
 \<and> parseTimeInput (str ''1:02:03'') = \<lparr>hours = 1, minutes = 2, seconds = 3\<rparr>
 \<and> parseTimeInput (str ''abc'') = \<lparr>hours = 0, minutes = 0, seconds = 0\<rparr>
 \<and> parseTimeInput [] = \<lparr>hours = 0, minutes = 0, seconds = 0\<rparr>
 \<and> parseTimeInput (str '' 7 : -08 '') = \<lparr>hours = 0, minutes = 7, seconds = - 8\<rparr>
 \<and> parseTimeInput (0xFEFF # str ''7'' @ 0x2003 # str '':30'')
     = \<lparr>hours = 0, minutes = 7, seconds = 30\<rparr>"
proof -
  have nodigit: "noLeadingDigit p \<longrightarrow> partValue p = 0"
    using partValue_no_digit [of p] by (simp add: noLeadingDigit_def)
  have dec: "stripSign (trim p) = ds @ rest \<and> list_all (radixDigit 10) ds
      \<and> (rest = [] \<or> \<not> radixDigit 10 (hd rest)) \<and> \<not> hexPrefix (ds @ rest)
      \<and> int (radixValue 10 ds) \<le> maxSafe \<longrightarrow>
        partValue p = signOf (trim p) * int (radixValue 10 ds)"
    using partValue_decimal [of p ds rest] by blast
  have hex: "stripSign (trim p) = pre @ hs @ rest \<and> (pre = str ''0x'' \<or> pre = str ''0X'')
      \<and> list_all (radixDigit 16) hs \<and> (rest = [] \<or> \<not> radixDigit 16 (hd rest))
      \<and> int (radixValue 16 hs) \<le> maxSafe \<longrightarrow>
        partValue p = signOf (trim p) * int (radixValue 16 hs)"
    using partValue_hex [of p pre hs rest] by blast
  have agree: "safeParts s
      \<and> list_all (\<lambda>p. isNumericPart p \<or> noLeadingDigit p) (split colon s) \<longrightarrow>
        parseTimeInput s = specParseTimeInput s"
    using parseTimeInput_spec_agree [of s] by blast
  have e1: "parseTimeInput (str ''05:00'') = \<lparr>hours = 0, minutes = 5, seconds = 0\<rparr>"
    by code_simp
  have e2: "parseTimeInput (str ''1:02:03'') = \<lparr>hours = 1, minutes = 2, seconds = 3\<rparr>"
    by code_simp
  have e3: "parseTimeInput (str ''abc'') = \<lparr>hours = 0, minutes = 0, seconds = 0\<rparr>"
    by code_simp
  have e4: "parseTimeInput [] = \<lparr>hours = 0, minutes = 0, seconds = 0\<rparr>"
    by code_simp
  have e5: "parseTimeInput (str '' 7 : -08 '') = \<lparr>hours = 0, minutes = 7, seconds = - 8\<rparr>"
    by code_simp
  have e6: "parseTimeInput (0xFEFF # str ''7'' @ 0x2003 # str '':30'')
      = \<lparr>hours = 0, minutes = 7, seconds = 30\<rparr>"
    by code_simp
  show ?thesis
    using length_split [of colon s] joinWith_split [of colon s]
      split_parts [of colon s] parseTimeInput_shape [of s]
      nodigit dec hex agree e1 e2 e3 e4 e5 e6
    by blast
qed

theorem parseTimeInput_parts_witness:
  "safeParts (str ''05:00'')
 \<and> list_all (\<lambda>p. isNumericPart p \<or> noLeadingDigit p) (split colon (str ''05:00''))
 \<and> parseTimeInput (str ''05:00'') = specParseTimeInput (str ''05:00'')
 \<and> stripSign (trim (str '' -07x '')) = str ''07'' @ str ''x''
 \<and> list_all (radixDigit 10) (str ''07'')
 \<and> \<not> radixDigit 10 (hd (str ''x''))
 \<and> \<not> hexPrefix (str ''07'' @ str ''x'')
 \<and> int (radixValue 10 (str ''07'')) \<le> maxSafe
 \<and> partValue (str '' -07x '')
     = signOf (trim (str '' -07x '')) * int (radixValue 10 (str ''07''))
 \<and> stripSign (trim (str ''0x1F'')) = str ''0x'' @ str ''1F'' @ []
 \<and> list_all (radixDigit 16) (str ''1F'')
 \<and> int (radixValue 16 (str ''1F'')) \<le> maxSafe
 \<and> partValue (str ''0x1F'') = signOf (trim (str ''0x1F'')) * int (radixValue 16 (str ''1F''))
 \<and> noLeadingDigit (str ''abc'')
 \<and> partValue (str ''abc'') = 0"
proof -
  have "split colon (str ''05:00'') = [str ''05'', str ''00'']"
    and "partValue (str ''05'') = 5" and "partValue (str ''00'') = 0"
    by code_simp+
  then have h0: "safeParts (str ''05:00'')"
    by (simp add: safeParts_def safeInt_def maxSafe_def)
  have h1: "list_all (\<lambda>p. isNumericPart p \<or> noLeadingDigit p) (split colon (str ''05:00''))"
    by code_simp
  have h2: "stripSign (trim (str '' -07x '')) = str ''07'' @ str ''x''"
    by code_simp
  have h3: "list_all (radixDigit 10) (str ''07'')" and h4: "\<not> radixDigit 10 (hd (str ''x''))"
    by (simp_all add: radixDigit_def digitVal_def str_def)
  have h5: "\<not> hexPrefix (str ''07'' @ str ''x'')"
    by (simp add: hexPrefix_def str_def)
  have h6: "stripSign (trim (str ''0x1F'')) = str ''0x'' @ str ''1F'' @ []"
    by code_simp
  have h7: "list_all (radixDigit 16) (str ''1F'')"
    by (simp add: radixDigit_def digitVal_def str_def)
  have h8: "noLeadingDigit (str ''abc'')"
    by code_simp
  have h9: "int (radixValue 10 (str ''07'')) \<le> maxSafe"
    and h10: "int (radixValue 16 (str ''1F'')) \<le> maxSafe"
    by (simp_all add: radixValue_def digitVal_def str_def maxSafe_def)
  show ?thesis
    using h0 h1 h2 h3 h4 h5 h6 h7 h8 h9 h10
      parseTimeInput_parts [where s = "str ''05:00''" and p = "str '' -07x ''"
        and ds = "str ''07''" and rest = "str ''x''" and pre = "[]" and hs = "[]"]
      parseTimeInput_parts [where s = "str ''abc''" and p = "str ''0x1F''" and ds = "[]"
        and rest = "[]" and pre = "str ''0x''" and hs = "str ''1F''"]
      parseTimeInput_parts [where s = "str ''abc''" and p = "str ''abc''" and ds = "[]"
        and rest = "[]" and pre = "[]" and hs = "[]"]
    by blast
qed

end
